theory Spec2Isabelle
  imports Main "HOL-Library.Word"
begin

section \<open>Machine integers\<close>

text \<open>
  The C++ type \<^verbatim>\<open>int\<close> of the sources is a 32-bit two's complement integer. It is
  modelled as a 32-bit word: addition, subtraction and negation wrap around, and the
  comparisons of the source are the signed ones (\<open>\<le>s\<close>, \<open><s\<close>), which compare the
  values \<open>sint\<close> reads. \<^verbatim>\<open>size_t\<close> is 64 bits wide; the length of a vector is a
  natural number, and the conversions between the two widths are written out where the
  source converts.
\<close>

type_synonym int32 = "32 word"
type_synonym size_t = "64 word"

text \<open>
  \<^verbatim>\<open>std::min(a, b)\<close> on \<^verbatim>\<open>int\<close>: \<open>b\<close> when \<open>b < a\<close>, else \<open>a\<close>.
\<close>

definition std_min :: "int32 \<Rightarrow> int32 \<Rightarrow> int32" where
  "std_min a b = (if b <s a then b else a)"

text \<open>
  \<^verbatim>\<open>v.size()\<close> of a vector, the conversion \<^verbatim>\<open>static_cast<int>\<close> of a
  \<^verbatim>\<open>size_t\<close> (the low 32 bits), and the conversion of an \<^verbatim>\<open>int\<close> operand to
  \<^verbatim>\<open>size_t\<close> (sign extension), which C++ applies when an \<^verbatim>\<open>int\<close> meets a
  \<^verbatim>\<open>size_t\<close> in an arithmetic expression or is used as a vector index.
\<close>

definition vec_size :: "'a list \<Rightarrow> size_t" where
  "vec_size xs = word_of_nat (length xs)"

definition int_of_size :: "size_t \<Rightarrow> int32" where
  "int_of_size s = ucast s"

definition size_of_int :: "int32 \<Rightarrow> size_t" where
  "size_of_int i = scast i"

lemma sint_succ: "sint (i + 1) = sint i + 1" if "i <s n" for i n :: int32
proof -
  from that have "sint i < sint n"
    by (simp add: word_sless_alt)
  moreover have "sint n < 2 ^ 31"
    using sint_lt [of n] by simp
  moreover have "- (2 ^ 31) \<le> sint i"
    using sint_ge [of i] by simp
  ultimately show ?thesis
    by (simp add: sint_word_ariths signed_take_bit_int_eq_self)
qed


lemma int_of_vec_size: "int_of_size (vec_size xs) = word_of_nat (length xs)"
  unfolding int_of_size_def vec_size_def
  by (simp add: unsigned_of_nat word_of_nat_eq_iff)

lemma take_bit_diff_signed:
  "take_bit 32 (a - signed_take_bit 31 c) = take_bit 32 (a - c)" for a c :: int
proof -
  have "take_bit 32 (a - signed_take_bit 31 c)
      = take_bit 32 (take_bit 32 a - take_bit 32 (signed_take_bit 31 c))"
    by (simp only: take_bit_diff)
  also have "take_bit 32 (signed_take_bit 31 c) = take_bit 32 c"
    by (simp add: take_bit_signed_take_bit)
  finally show ?thesis
    by (simp only: take_bit_diff)
qed

lemma int_of_size_diff:
  "int_of_size (vec_size xs - size_of_int c) = word_of_nat (length xs) - c"
  unfolding int_of_size_def vec_size_def size_of_int_def
  by transfer (simp add: take_bit_diff_signed)


section \<open>CreditWallet\<close>

text \<open>
  \<^verbatim>\<open>struct Transaction\<close> of \<^verbatim>\<open>ai_integration.h\<close>. The members \<^verbatim>\<open>id\<close>,
  \<^verbatim>\<open>operation\<close>, \<^verbatim>\<open>credits\<close>, \<^verbatim>\<open>timestamp\<close> and \<^verbatim>\<open>success\<close> carry the prefix
  \<open>tx_\<close> here.
\<close>

record Transaction =
  tx_id :: string
  tx_operation :: string
  tx_credits :: int32
  tx_timestamp :: string
  tx_success :: bool

text \<open>\<^verbatim>\<open>class CreditWallet::Impl\<close>: the whole state of a wallet.\<close>

record CreditWallet =
  user_token :: string
  xeno_labs_endpoint :: string
  cached_balance :: int32
  transactions :: "Transaction list"

text \<open>
  The constructor: the member initialisers of \<^verbatim>\<open>Impl\<close>, then
  \<^verbatim>\<open>cached_balance = 100\<close>.
\<close>

definition CreditWallet_new :: CreditWallet where
  "CreditWallet_new =
     \<lparr>user_token = '''', xeno_labs_endpoint = ''https://api.xenolabs.ai'',
      cached_balance = 0, transactions = []\<rparr> \<lparr>cached_balance := 100\<rparr>"

text \<open>
  Every member function is a function from the state before the call to the returned
  value and the state after it.
\<close>

definition authenticate :: "CreditWallet \<Rightarrow> string \<Rightarrow> bool \<times> CreditWallet" where
  "authenticate w token = (token \<noteq> [], w\<lparr>user_token := token\<rparr>)"

definition getBalance :: "CreditWallet \<Rightarrow> int32 \<times> CreditWallet" where
  "getBalance w = (cached_balance w, w)"

text \<open>\<^verbatim>\<open>std::to_string\<close> on an unsigned value: its decimal digits.\<close>

definition digit_char :: "nat \<Rightarrow> char" where
  "digit_char d = ''0123456789'' ! d"

function to_string :: "nat \<Rightarrow> string" where
  "to_string n = (if n < 10 then [digit_char n] else to_string (n div 10) @ [digit_char (n mod 10)])"
  by pat_completeness auto
termination
  by (relation "measure (\<lambda>n. n)") auto

declare to_string.simps [simp del]


text \<open>
  The identifier of the next transaction, \<^verbatim>\<open>"tx_" + std::to_string(transactions.size() + 1)\<close>;
  the sum is a \<^verbatim>\<open>size_t\<close>.
\<close>

definition next_tx_id :: "Transaction list \<Rightarrow> string" where
  "next_tx_id txs = ''tx_'' @ to_string (unat (vec_size txs + 1))"

definition deductCredits :: "CreditWallet \<Rightarrow> int32 \<Rightarrow> string \<Rightarrow> bool \<times> CreditWallet" where
  "deductCredits w amount operation =
     (if amount \<le>s cached_balance w then
        let w1 = w\<lparr>cached_balance := cached_balance w - amount\<rparr>;
            transaction = \<lparr>tx_id = next_tx_id (transactions w1), tx_operation = operation,
              tx_credits = - amount, tx_timestamp = ''2024-01-01T00:00:00Z'',
              tx_success = True\<rparr>
        in (True, w1\<lparr>transactions := transactions w1 @ [transaction]\<rparr>)
      else (False, w))"

definition addCredits :: "CreditWallet \<Rightarrow> int32 \<Rightarrow> bool \<times> CreditWallet" where
  "addCredits w amount =
     (let w1 = w\<lparr>cached_balance := cached_balance w + amount\<rparr>;
          transaction = \<lparr>tx_id = next_tx_id (transactions w1),
            tx_operation = ''credit_purchase'', tx_credits = amount,
            tx_timestamp = ''2024-01-01T00:00:00Z'', tx_success = True\<rparr>
      in (True, w1\<lparr>transactions := transactions w1 @ [transaction]\<rparr>))"

text \<open>
  \<^verbatim>\<open>getTransactionHistory\<close> reads \<^verbatim>\<open>transactions[i]\<close> for an \<^verbatim>\<open>int i\<close>.
  An index outside the vector is undefined behaviour in C++; the model returns the
  fault instead of a result.
\<close>

datatype fault = OutOfRange

text \<open>
  The loop \<^verbatim>\<open>for (int i = ...; i < static_cast<int>(transactions.size()); i++)\<close>,
  from the current \<open>i\<close> and the \<open>result\<close> built so far.
\<close>

function history_loop ::
  "Transaction list \<Rightarrow> int32 \<Rightarrow> Transaction list \<Rightarrow> fault + Transaction list" where
  "history_loop txs i result =
     (if i <s int_of_size (vec_size txs) then
        if unat (size_of_int i) < length txs then
          history_loop txs (i + 1) (result @ [txs ! unat (size_of_int i)])
        else Inl OutOfRange
      else Inr result)"
  by pat_completeness auto
termination
proof (relation "measure (\<lambda>(txs, i, result). nat (sint (int_of_size (vec_size txs)) - sint i))")
  show "wf (measure (\<lambda>(txs, i, result). nat (sint (int_of_size (vec_size txs)) - sint i)))"
    by simp
next
  fix txs :: "Transaction list" and i :: int32 and result :: "Transaction list"
  assume less: "i <s int_of_size (vec_size txs)"
  then have "sint i < sint (int_of_size (vec_size txs))"
    by (simp add: word_sless_alt)
  with sint_succ [OF less]
  show "((txs, i + 1, result @ [txs ! unat (size_of_int i)]), (txs, i, result))
    \<in> measure (\<lambda>(txs, i, result). nat (sint (int_of_size (vec_size txs)) - sint i))"
    by simp
qed

declare history_loop.simps [simp del]

definition getTransactionHistory ::
  "CreditWallet \<Rightarrow> int32 \<Rightarrow> fault + Transaction list \<times> CreditWallet" where
  "getTransactionHistory w limit =
     (let count = std_min limit (int_of_size (vec_size (transactions w)))
      in case history_loop (transactions w)
             (int_of_size (vec_size (transactions w) - size_of_int count)) [] of
           Inl e \<Rightarrow> Inl e
         | Inr result \<Rightarrow> Inr (result, w))"

section \<open>JSON values\<close>

text \<open>
  \<^verbatim>\<open>nlohmann::json\<close> is a library outside the repository. \<^verbatim>\<open>loadConfigFromFile\<close>
  uses four of its operations, modelled here as the library documents them: a value is
  null, a boolean, a number, a string, an array or an object (keys to values; the first
  pair of a key counts); \<^verbatim>\<open>contains(key)\<close> is true on an object that has the key
  and false on everything else; \<^verbatim>\<open>operator[](key)\<close> on a non-const value returns the
  member on an object (null when the key is missing), null on null, and throws
  \<^verbatim>\<open>type_error\<close> 305 on any other value; the conversion to \<^verbatim>\<open>std::string\<close>
  returns the text of a string and throws \<^verbatim>\<open>type_error\<close> 302 on any other value.
  Numbers occur only as values that are not strings, so one constructor stands for all
  of them.
\<close>

datatype json =
  JNull
  | JBoolean bool
  | JNumber int
  | JString string
  | JArray "json list"
  | JObject "(string \<times> json) list"

datatype json_exception = TypeError302 | TypeError305

fun json_contains :: "json \<Rightarrow> string \<Rightarrow> bool" where
  "json_contains (JObject members) key = (map_of members key \<noteq> None)"
| "json_contains _ key = False"

fun json_at :: "json \<Rightarrow> string \<Rightarrow> json_exception + json" where
  "json_at (JObject members) key =
     Inr (case map_of members key of None \<Rightarrow> JNull | Some v \<Rightarrow> v)"
| "json_at JNull key = Inr JNull"
| "json_at _ key = Inl TypeError305"

fun json_get_string :: "json \<Rightarrow> json_exception + string" where
  "json_get_string (JString s) = Inr s"
| "json_get_string _ = Inl TypeError302"

section \<open>AIIntegration\<close>

text \<open>The value types of \<^verbatim>\<open>class AIIntegration\<close> in \<^verbatim>\<open>ai_integration.h\<close>.\<close>

record APIConfig =
  endpoint :: string
  api_key :: string
  headers :: "string \<rightharpoonup> string"

record AIRequest =
  prompt :: string
  model :: string
  parameters :: "string \<rightharpoonup> json"
  operation_type :: string

text \<open>
  \<^verbatim>\<open>struct AIResponse\<close>. The members \<^verbatim>\<open>success\<close> and \<^verbatim>\<open>credits_used\<close> have no
  initialiser: after \<^verbatim>\<open>AIResponse response;\<close> their values are indeterminate until
  the first assignment. \<open>None\<close> stands for a member that has not been assigned.
\<close>

record AIResponse =
  success :: "bool option"
  content :: string
  credits_used :: "int32 option"
  error_message :: string
  metadata :: json

definition AIResponse_default :: AIResponse where
  "AIResponse_default =
     \<lparr>success = None, content = '''', credits_used = None, error_message = '''',
      metadata = JNull\<rparr>"

datatype AIProvider = XenoCloud | OpenRouter | Ollama

text \<open>\<^verbatim>\<open>class AIIntegration::Impl\<close>: the provider configurations and the owned wallet.\<close>

record AIIntegration =
  configs :: "AIProvider \<rightharpoonup> APIConfig"
  wallet :: CreditWallet

definition AIIntegration_new :: AIIntegration where
  "AIIntegration_new = \<lparr>configs = Map.empty, wallet = CreditWallet_new\<rparr>"

definition configure :: "AIIntegration \<Rightarrow> AIProvider \<Rightarrow> APIConfig \<Rightarrow> bool \<times> AIIntegration" where
  "configure ai provider config = (True, ai\<lparr>configs := (configs ai)(provider \<mapsto> config)\<rparr>)"

text \<open>
  \<^verbatim>\<open>config[section][field]\<close> converted to \<^verbatim>\<open>std::string\<close>. The null that
  \<^verbatim>\<open>operator[]\<close> inserts for a missing key goes into the local \<^verbatim>\<open>config\<close>, and
  the conversion of that null throws at once, so no later read sees it.
\<close>

definition config_string :: "json \<Rightarrow> string \<Rightarrow> string \<Rightarrow> json_exception + string" where
  "config_string config section field =
     (case json_at config section of
        Inl e \<Rightarrow> Inl e
      | Inr sec \<Rightarrow> (case json_at sec field of Inl e \<Rightarrow> Inl e | Inr v \<Rightarrow> json_get_string v))"

text \<open>
  The three blocks of the \<^verbatim>\<open>try\<close> body of \<^verbatim>\<open>loadConfigFromFile\<close>, each from the
  state before the block. A block either throws, and has changed nothing then, since
  its \<^verbatim>\<open>configure\<close> call is its last statement, or ends in the state after its
  \<^verbatim>\<open>configure\<close> call. A block whose section is missing is skipped.
\<close>

definition configure_xeno_ai :: "AIIntegration \<Rightarrow> json \<Rightarrow> json_exception + AIIntegration" where
  "configure_xeno_ai ai config =
     (if json_contains config ''xeno_ai'' then
        case config_string config ''xeno_ai'' ''endpoint'' of
          Inl e \<Rightarrow> Inl e
        | Inr ep \<Rightarrow>
            (case config_string config ''xeno_ai'' ''api_key'' of
               Inl e \<Rightarrow> Inl e
             | Inr key \<Rightarrow>
                 Inr (snd (configure ai XenoCloud
                   \<lparr>endpoint = ep, api_key = key,
                    headers = [''Authorization'' \<mapsto> ''Bearer '' @ key]\<rparr>)))
      else Inr ai)"

definition configure_open_router :: "AIIntegration \<Rightarrow> json \<Rightarrow> json_exception + AIIntegration" where
  "configure_open_router ai config =
     (if json_contains config ''open_router'' then
        case config_string config ''open_router'' ''endpoint'' of
          Inl e \<Rightarrow> Inl e
        | Inr ep \<Rightarrow>
            (case config_string config ''open_router'' ''api_key'' of
               Inl e \<Rightarrow> Inl e
             | Inr key \<Rightarrow>
                 Inr (snd (configure ai OpenRouter
                   \<lparr>endpoint = ep, api_key = key,
                    headers = [''Authorization'' \<mapsto> ''Bearer '' @ key]\<rparr>)))
      else Inr ai)"

definition configure_ollama :: "AIIntegration \<Rightarrow> json \<Rightarrow> json_exception + AIIntegration" where
  "configure_ollama ai config =
     (if json_contains config ''ollama'' then
        case config_string config ''ollama'' ''endpoint'' of
          Inl e \<Rightarrow> Inl e
        | Inr ep \<Rightarrow>
            Inr (snd (configure ai Ollama
              \<lparr>endpoint = ep, api_key = '''', headers = Map.empty\<rparr>))
      else Inr ai)"

text \<open>
  \<^verbatim>\<open>loadConfigFromFile\<close>. The file system and the JSON parser are parameters:
  \<open>files path\<close> is the text of the file, \<open>None\<close> when it cannot be opened;
  \<open>parse text\<close> is the value read by \<^verbatim>\<open>file >> config\<close>, \<open>None\<close> when the parser
  throws. Every exception of the \<^verbatim>\<open>try\<close> body is caught and turned into
  \<^verbatim>\<open>false\<close>; the state then is the one the integration had when it was thrown.
\<close>

definition loadConfigFromFile ::
  "(string \<rightharpoonup> string) \<Rightarrow> (string \<rightharpoonup> json) \<Rightarrow> AIIntegration \<Rightarrow> string
    \<Rightarrow> bool \<times> AIIntegration" where
  "loadConfigFromFile files parse ai config_path =
     (case files config_path of
        None \<Rightarrow> (False, ai)
      | Some text \<Rightarrow>
          (case parse text of
             None \<Rightarrow> (False, ai)
           | Some config \<Rightarrow>
               (case configure_xeno_ai ai config of
                  Inl e \<Rightarrow> (False, ai)
                | Inr ai1 \<Rightarrow>
                    (case configure_open_router ai1 config of
                       Inl e \<Rightarrow> (False, ai1)
                     | Inr ai2 \<Rightarrow>
                         (case configure_ollama ai2 config of
                            Inl e \<Rightarrow> (False, ai2)
                          | Inr ai3 \<Rightarrow> (True, ai3))))))"

definition getCreditBalance :: "AIIntegration \<Rightarrow> int32 \<times> AIIntegration" where
  "getCreditBalance ai = (let (balance, w) = getBalance (wallet ai) in (balance, ai\<lparr>wallet := w\<rparr>))"

text \<open>\<^verbatim>\<open>AIIntegration::deductCredits\<close>; the wallet has a member of the same name.\<close>

definition AIIntegration_deductCredits :: "AIIntegration \<Rightarrow> int32 \<Rightarrow> bool \<times> AIIntegration" where
  "AIIntegration_deductCredits ai amount =
     (let (returned, w) = deductCredits (wallet ai) amount ''api_call''
      in (returned, ai\<lparr>wallet := w\<rparr>))"

definition validateCredits :: "AIIntegration \<Rightarrow> int32 \<Rightarrow> bool \<times> AIIntegration" where
  "validateCredits ai required_credits =
     (let (balance, ai1) = getCreditBalance ai in (required_credits \<le>s balance, ai1))"

text \<open>
  The five operations. Each starts from a default-initialised response; an early
  \<^verbatim>\<open>return\<close> is the \<open>Inl\<close> of the first step.
\<close>

definition generateImage ::
  "AIIntegration \<Rightarrow> AIRequest \<Rightarrow> AIProvider \<Rightarrow> AIResponse \<times> AIIntegration" where
  "generateImage ai request provider =
     (let response = AIResponse_default in
      case (if provider = XenoCloud then
              let required_credits = 3;
                  (valid, ai1) = validateCredits ai required_credits
              in if \<not> valid then
                   Inl (response\<lparr>success := Some False,
                          error_message := ''Insufficient credits''\<rparr>, ai1)
                 else Inr ai1
            else Inr ai) of
        Inl returned \<Rightarrow> returned
      | Inr ai1 \<Rightarrow>
          let used = (if provider = XenoCloud then 3 else 0);
              response1 = response\<lparr>success := Some True,
                content := ''Generated image data (placeholder)'',
                credits_used := Some used\<rparr>
          in if provider = XenoCloud then
               (response1, snd (AIIntegration_deductCredits ai1 used))
             else (response1, ai1))"

definition processVideo ::
  "AIIntegration \<Rightarrow> AIRequest \<Rightarrow> AIProvider \<Rightarrow> AIResponse \<times> AIIntegration" where
  "processVideo ai request provider =
     (let response = AIResponse_default in
      case (if provider = XenoCloud then
              let required_credits = 5;
                  (valid, ai1) = validateCredits ai required_credits
              in if \<not> valid then
                   Inl (response\<lparr>success := Some False,
                          error_message := ''Insufficient credits''\<rparr>, ai1)
                 else Inr ai1
            else Inr ai) of
        Inl returned \<Rightarrow> returned
      | Inr ai1 \<Rightarrow>
          let used = (if provider = XenoCloud then 5 else 0);
              response1 = response\<lparr>success := Some True,
                content := ''Processed video data (placeholder)'',
                credits_used := Some used\<rparr>
          in if provider = XenoCloud then
               (response1, snd (AIIntegration_deductCredits ai1 used))
             else (response1, ai1))"

definition processAudio ::
  "AIIntegration \<Rightarrow> AIRequest \<Rightarrow> AIProvider \<Rightarrow> AIResponse \<times> AIIntegration" where
  "processAudio ai request provider =
     (let response = AIResponse_default in
      case (if provider = XenoCloud then
              let required_credits = 2;
                  (valid, ai1) = validateCredits ai required_credits
              in if \<not> valid then
                   Inl (response\<lparr>success := Some False,
                          error_message := ''Insufficient credits''\<rparr>, ai1)
                 else Inr ai1
            else Inr ai) of
        Inl returned \<Rightarrow> returned
      | Inr ai1 \<Rightarrow>
          let used = (if provider = XenoCloud then 2 else 0);
              response1 = response\<lparr>success := Some True,
                content := ''Processed audio data (placeholder)'',
                credits_used := Some used\<rparr>
          in if provider = XenoCloud then
               (response1, snd (AIIntegration_deductCredits ai1 used))
             else (response1, ai1))"

definition completeCode ::
  "AIIntegration \<Rightarrow> AIRequest \<Rightarrow> AIProvider \<Rightarrow> AIResponse \<times> AIIntegration" where
  "completeCode ai request provider =
     (let response = AIResponse_default in
      case (if provider = XenoCloud then
              let required_credits = 1;
                  (valid, ai1) = validateCredits ai required_credits
              in if \<not> valid then
                   Inl (response\<lparr>success := Some False,
                          error_message := ''Insufficient credits''\<rparr>, ai1)
                 else Inr ai1
            else Inr ai) of
        Inl returned \<Rightarrow> returned
      | Inr ai1 \<Rightarrow>
          let used = (if provider = XenoCloud then 1 else 0);
              response1 = response\<lparr>success := Some True,
                content := ''Code completion suggestion (placeholder)'',
                credits_used := Some used\<rparr>
          in if provider = XenoCloud then
               (response1, snd (AIIntegration_deductCredits ai1 used))
             else (response1, ai1))"

definition chatCompletion ::
  "AIIntegration \<Rightarrow> AIRequest \<Rightarrow> AIProvider \<Rightarrow> AIResponse \<times> AIIntegration" where
  "chatCompletion ai request provider =
     (let response = AIResponse_default in
      case (if provider = XenoCloud then
              let required_credits = 1;
                  (valid, ai1) = validateCredits ai required_credits
              in if \<not> valid then
                   Inl (response\<lparr>success := Some False,
                          error_message := ''Insufficient credits''\<rparr>, ai1)
                 else Inr ai1
            else Inr ai) of
        Inl returned \<Rightarrow> returned
      | Inr ai1 \<Rightarrow>
          let used = (if provider = XenoCloud then 1 else 0);
              response1 = response\<lparr>success := Some True,
                content := ''Chat response (placeholder)'',
                credits_used := Some used\<rparr>
          in if provider = XenoCloud then
               (response1, snd (AIIntegration_deductCredits ai1 used))
             else (response1, ai1))"

definition makeAPICall ::
  "AIIntegration \<Rightarrow> AIProvider \<Rightarrow> string \<Rightarrow> json \<Rightarrow> AIResponse \<times> AIIntegration" where
  "makeAPICall ai provider endpoint_path payload =
     (let response = AIResponse_default
      in (response\<lparr>success := Some True, content := ''API response (placeholder)'',
            credits_used := Some (if provider = XenoCloud then 1 else 0)\<rparr>, ai))"

definition isProviderAvailable :: "AIIntegration \<Rightarrow> AIProvider \<Rightarrow> bool \<times> AIIntegration" where
  "isProviderAvailable ai provider = (configs ai provider \<noteq> None, ai)"

definition getProviderStatus :: "AIIntegration \<Rightarrow> AIProvider \<Rightarrow> string \<times> AIIntegration" where
  "getProviderStatus ai provider =
     (let (available, ai1) = isProviderAvailable ai provider
      in if \<not> available then (''Not configured'', ai1) else (''Available'', ai1))"

section \<open>Sequences of wallet calls\<close>

text \<open>
  A client of the wallet changes the balance through \<^verbatim>\<open>deductCredits\<close> and
  \<^verbatim>\<open>addCredits\<close> only. \<open>run_calls\<close> makes the calls of a list one after the other;
  \<open>applied_deltas\<close> lists the credit deltas of the calls that were applied: \<open>- amount\<close>
  for a deduction that returned true, nothing for one that returned false, \<open>amount\<close> for
  a top-up.
\<close>

datatype wallet_call = Deduct int32 string | Add int32

fun apply_call :: "CreditWallet \<Rightarrow> wallet_call \<Rightarrow> bool \<times> CreditWallet" where
  "apply_call w (Deduct amount operation) = deductCredits w amount operation"
| "apply_call w (Add amount) = addCredits w amount"

fun call_delta :: "wallet_call \<Rightarrow> int32" where
  "call_delta (Deduct amount operation) = - amount"
| "call_delta (Add amount) = amount"


fun run_calls :: "CreditWallet \<Rightarrow> wallet_call list \<Rightarrow> CreditWallet" where
  "run_calls w [] = w"
| "run_calls w (c # cs) = run_calls (snd (apply_call w c)) cs"

fun applied_deltas :: "CreditWallet \<Rightarrow> wallet_call list \<Rightarrow> int32 list" where
  "applied_deltas w [] = []"
| "applied_deltas w (c # cs) =
     (if fst (apply_call w c) then [call_delta c] else []) @ applied_deltas (snd (apply_call w c)) cs"

text \<open>
  The calls of a list that were applied (a top-up always, a deduction when it returned
  true), in order, and the delta of a call as an integer: \<open>- amount\<close> and \<open>amount\<close> with
  the amount read as the \<^verbatim>\<open>int\<close> it is. The negation \<^verbatim>\<open>-amount\<close> that a deduction
  logs wraps around for one amount only, \<^verbatim>\<open>INT_MIN\<close>.
\<close>

fun applied_calls :: "CreditWallet \<Rightarrow> wallet_call list \<Rightarrow> wallet_call list" where
  "applied_calls w [] = []"
| "applied_calls w (c # cs) =
     (if fst (apply_call w c) then [c] else []) @ applied_calls (snd (apply_call w c)) cs"

fun call_int_delta :: "wallet_call \<Rightarrow> int" where
  "call_int_delta (Deduct amount operation) = - sint amount"
| "call_int_delta (Add amount) = sint amount"

fun negation_wraps :: "wallet_call \<Rightarrow> bool" where
  "negation_wraps (Deduct amount operation) = (amount = - 2147483648)"
| "negation_wraps (Add amount) = False"


section \<open>Vocabulary of the statements\<close>

text \<open>
  The two responses of a per-modality operation, as its body builds them from a
  default-initialised response, and the integration after \<^verbatim>\<open>deductCredits(cost)\<close>
  has taken \<open>cost\<close> from a sufficient balance.
\<close>

definition refused :: AIResponse where
  "refused = AIResponse_default\<lparr>success := Some False, error_message := ''Insufficient credits''\<rparr>"

definition served :: "string \<Rightarrow> int32 \<Rightarrow> AIResponse" where
  "served placeholder used =
     AIResponse_default\<lparr>success := Some True, content := placeholder, credits_used := Some used\<rparr>"

definition charged :: "AIIntegration \<Rightarrow> int32 \<Rightarrow> AIIntegration" where
  "charged ai cost =
     ai\<lparr>wallet := (wallet ai)\<lparr>cached_balance := cached_balance (wallet ai) - cost,
        transactions := transactions (wallet ai) @
          [\<lparr>tx_id = next_tx_id (transactions (wallet ai)), tx_operation = ''api_call'',
            tx_credits = - cost, tx_timestamp = ''2024-01-01T00:00:00Z'',
            tx_success = True\<rparr>]\<rparr>\<rparr>"

text \<open>A request, as the unit test of code completion builds it.\<close>

definition example_request :: AIRequest where
  "example_request =
     \<lparr>prompt = ''int main() {'', model = '''', parameters = Map.empty,
      operation_type = ''code_completion''\<rparr>"

text \<open>
  The sections of a configuration document: the key of a provider's section, the string
  fields its block reads, and the providers whose blocks run before it. A section is in
  order when it is missing or every field read from it converts to a string;
  \<open>section_entry\<close> is the configuration its block builds, and \<open>apply_section\<close> the
  effect of its \<^verbatim>\<open>configure\<close> call.
\<close>

fun section_name :: "AIProvider \<Rightarrow> string" where
  "section_name XenoCloud = ''xeno_ai''"
| "section_name OpenRouter = ''open_router''"
| "section_name Ollama = ''ollama''"

fun section_fields :: "AIProvider \<Rightarrow> string list" where
  "section_fields XenoCloud = [''endpoint'', ''api_key'']"
| "section_fields OpenRouter = [''endpoint'', ''api_key'']"
| "section_fields Ollama = [''endpoint'']"

fun earlier_sections :: "AIProvider \<Rightarrow> AIProvider list" where
  "earlier_sections XenoCloud = []"
| "earlier_sections OpenRouter = [XenoCloud]"
| "earlier_sections Ollama = [XenoCloud, OpenRouter]"

definition section_present :: "json \<Rightarrow> AIProvider \<Rightarrow> bool" where
  "section_present config p = json_contains config (section_name p)"

definition section_ok :: "json \<Rightarrow> AIProvider \<Rightarrow> bool" where
  "section_ok config p =
     (section_present config p \<longrightarrow>
        list_all (\<lambda>field. \<not> isl (config_string config (section_name p) field)) (section_fields p))"

definition section_entry :: "json \<Rightarrow> AIProvider \<Rightarrow> APIConfig" where
  "section_entry config p =
     (let ep = projr (config_string config (section_name p) ''endpoint'');
          key = projr (config_string config (section_name p) ''api_key'')
      in if p = Ollama then \<lparr>endpoint = ep, api_key = '''', headers = Map.empty\<rparr>
         else \<lparr>endpoint = ep, api_key = key,
                headers = [''Authorization'' \<mapsto> ''Bearer '' @ key]\<rparr>)"

definition apply_section :: "AIIntegration \<Rightarrow> json \<Rightarrow> AIProvider \<Rightarrow> AIIntegration" where
  "apply_section ai config p =
     (if section_present config p then ai\<lparr>configs := (configs ai)(p \<mapsto> section_entry config p)\<rparr>
      else ai)"

text \<open>
  A file system with three files and the documents the parser reads from them: one with a
  complete \<open>xeno_ai\<close> section and an \<open>open_router\<close> section that lacks its
  \<open>endpoint\<close>, one with an \<open>ollama\<close> section only, and one that is not JSON.
\<close>

definition example_files :: "string \<rightharpoonup> string" where
  "example_files = [''partial.json'' \<mapsto> ''xeno_ai and open_router'',
                    ''local.json'' \<mapsto> ''ollama only'',
                    ''broken.json'' \<mapsto> ''not json'']"

definition example_parse :: "string \<rightharpoonup> json" where
  "example_parse =
     [''xeno_ai and open_router'' \<mapsto>
        JObject [(''xeno_ai'', JObject [(''endpoint'', JString ''https://api.xenolabs.ai''),
                                        (''api_key'', JString ''k1'')]),
                 (''open_router'', JObject [(''api_key'', JString ''k2'')])],
      ''ollama only'' \<mapsto>
        JObject [(''ollama'', JObject [(''endpoint'', JString ''http://localhost:11434'')])]]"

section \<open>The ledger\<close>

lemma sint_diff_no_wrap:
  "sint (b - a) = sint b - sint a" if "0 \<le>s a" and "a \<le>s b" for a b :: int32
proof -
  from that have "0 \<le> sint a" and "sint a \<le> sint b"
    by (simp_all add: word_sle_eq)
  moreover have "sint b < 2 ^ 31"
    using sint_lt [of b] by simp
  ultimately show ?thesis
    by (simp add: sint_word_ariths signed_take_bit_int_eq_self)
qed

lemma sint_sum_no_wrap:
  "sint (b + a) = sint b + sint a"
  if "- (2 ^ 31) \<le> sint b + sint a" and "sint b + sint a < 2 ^ 31" for a b :: int32
  using that by (simp add: sint_word_ariths signed_take_bit_int_eq_self)

lemma sint_diff_in_range:
  "sint (b - a) = sint b - sint a"
  if "- (2 ^ 31) \<le> sint b - sint a" and "sint b - sint a < 2 ^ 31" for a b :: int32
  using that by (simp add: sint_word_ariths signed_take_bit_int_eq_self)

lemma sint_neg_no_wrap:
  "sint (- a) = - sint a" if "a \<noteq> - 2147483648" for a :: int32
proof -
  have "sint a \<noteq> - 2147483648"
  proof
    assume "sint a = - 2147483648"
    then have "word_of_int (sint a) = (word_of_int (- 2147483648) :: int32)"
      by (simp only:)
    then have "a = - 2147483648"
      by simp
    with that show False
      by simp
  qed
  moreover have "- (2 ^ 31) \<le> sint a" and "sint a < 2 ^ 31"
    using sint_ge [of a] sint_lt [of a] by simp_all
  ultimately have "- (2 ^ 31) \<le> - sint a" and "- sint a < 2 ^ 31"
    by simp_all
  then show ?thesis
    by (simp add: sint_word_ariths signed_take_bit_int_eq_self)
qed

lemma sint_of_int_in_range:
  "sint (word_of_int k :: int32) = k" if "- (2 ^ 31) \<le> k" and "k < 2 ^ 31"
  using that by (simp add: signed_of_int signed_take_bit_int_eq_self)

text \<open>
  C2, as amended. \<^verbatim>\<open>deductCredits(amount, operation)\<close> returns true when
  \<open>balance \<ge> amount\<close>; otherwise it returns false and the wallet is as before, log
  included. When it returns true the log is the old log followed by one transaction with
  the given label and \<open>success = true\<close>, and the new balance and the logged delta are
  \<open>balance - amount\<close> and \<open>- amount\<close> in 32-bit arithmetic. As integers, the new balance
  is \<open>balance - amount\<close> when \<open>balance - amount \<le> INT_MAX\<close> (so for every amount \<open>\<ge> 0\<close>),
  and the logged delta is \<open>- amount\<close> when \<open>amount \<noteq> INT_MIN\<close>.
\<close>

theorem deductCredits_contract:
  assumes "deductCredits w amount operation = (returned, w')"
  shows "if amount \<le>s cached_balance w then
           returned \<and> cached_balance w' = cached_balance w - amount
           \<and> (0 \<le>s amount \<longrightarrow> sint (cached_balance w') = sint (cached_balance w) - sint amount)
           \<and> (sint (cached_balance w) - sint amount < 2 ^ 31
                \<longrightarrow> sint (cached_balance w') = sint (cached_balance w) - sint amount)
           \<and> (\<exists>t. transactions w' = transactions w @ [t] \<and> tx_credits t = - amount
                 \<and> (amount \<noteq> - 2147483648 \<longrightarrow> sint (tx_credits t) = - sint amount)
                 \<and> tx_operation t = operation \<and> tx_success t)
           \<and> user_token w' = user_token w \<and> xeno_labs_endpoint w' = xeno_labs_endpoint w
         else \<not> returned \<and> w' = w"
proof (cases "amount \<le>s cached_balance w")
  case True
  with assms have w': "w' = w\<lparr>cached_balance := cached_balance w - amount,
      transactions := transactions w @ [\<lparr>tx_id = next_tx_id (transactions w),
        tx_operation = operation, tx_credits = - amount,
        tx_timestamp = ''2024-01-01T00:00:00Z'', tx_success = True\<rparr>]\<rparr>"
    and "returned"
    by (simp_all add: deductCredits_def Let_def)
  moreover have "0 \<le>s amount \<longrightarrow> sint (cached_balance w - amount) = sint (cached_balance w) - sint amount"
    using True by (simp add: sint_diff_no_wrap)
  moreover have "sint (cached_balance w) - sint amount < 2 ^ 31
      \<longrightarrow> sint (cached_balance w - amount) = sint (cached_balance w) - sint amount"
  proof
    assume below: "sint (cached_balance w) - sint amount < 2 ^ 31"
    from True have "0 \<le> sint (cached_balance w) - sint amount"
      by (simp add: word_sle_eq)
    then have "- (2 ^ 31) \<le> sint (cached_balance w) - sint amount"
      by simp
    then show "sint (cached_balance w - amount) = sint (cached_balance w) - sint amount"
      using below by (rule sint_diff_in_range)
  qed
  moreover have "amount \<noteq> - 2147483648 \<longrightarrow> sint (- amount) = - sint amount"
    by (simp add: sint_neg_no_wrap)
  ultimately show ?thesis
    using True by simp
next
  case False
  with assms show ?thesis
    by (simp add: deductCredits_def)
qed

theorem deductCredits_contract_witness:
  "(fst (deductCredits CreditWallet_new 5 ''x'')
      \<and> cached_balance (snd (deductCredits CreditWallet_new 5 ''x'')) = 95
      \<and> sint (cached_balance (snd (deductCredits CreditWallet_new 5 ''x''))) = 95
      \<and> map tx_credits (transactions (snd (deductCredits CreditWallet_new 5 ''x''))) = [- 5]
      \<and> map (\<lambda>t. sint (tx_credits t))
           (transactions (snd (deductCredits CreditWallet_new 5 ''x''))) = [- 5])
   \<and> deductCredits CreditWallet_new 1000 ''y'' = (False, CreditWallet_new)"
proof -
  have seed: "cached_balance CreditWallet_new = 100" and log: "transactions CreditWallet_new = []"
    by (simp_all add: CreditWallet_new_def)
  have enough: "(5 :: int32) \<le>s cached_balance CreditWallet_new"
    and short: "\<not> (1000 :: int32) \<le>s cached_balance CreditWallet_new"
    and below: "sint (cached_balance CreditWallet_new) - sint (5 :: int32) < 2 ^ 31"
    and negation: "(5 :: int32) \<noteq> - 2147483648"
    unfolding seed by simp_all
  let ?w' = "snd (deductCredits CreditWallet_new 5 ''x'')"
  have "deductCredits CreditWallet_new 5 ''x'' = (fst (deductCredits CreditWallet_new 5 ''x''), ?w')"
    by simp
  from deductCredits_contract [OF this] enough below negation
  obtain t where "fst (deductCredits CreditWallet_new 5 ''x'')"
    and "cached_balance ?w' = cached_balance CreditWallet_new - 5"
    and "sint (cached_balance ?w') = sint (cached_balance CreditWallet_new) - sint (5 :: int32)"
    and "transactions ?w' = transactions CreditWallet_new @ [t]"
    and "tx_credits t = - 5" and "sint (tx_credits t) = - sint (5 :: int32)"
    by auto
  then have first: "fst (deductCredits CreditWallet_new 5 ''x'')
      \<and> cached_balance ?w' = 95
      \<and> sint (cached_balance ?w') = 95
      \<and> map tx_credits (transactions ?w') = [- 5]
      \<and> map (\<lambda>t. sint (tx_credits t)) (transactions ?w') = [- 5]"
    unfolding seed log by simp
  have "deductCredits CreditWallet_new 1000 ''y''
      = (fst (deductCredits CreditWallet_new 1000 ''y''), snd (deductCredits CreditWallet_new 1000 ''y''))"
    by simp
  from deductCredits_contract [OF this] short
  have "\<not> fst (deductCredits CreditWallet_new 1000 ''y'')
      \<and> snd (deductCredits CreditWallet_new 1000 ''y'') = CreditWallet_new"
    by simp
  then have "deductCredits CreditWallet_new 1000 ''y'' = (False, CreditWallet_new)"
    by (simp add: prod_eq_iff)
  with first show ?thesis
    by simp
qed

text \<open>
  The claim as it is written, read on integers, fails for amounts it covers and the code
  accepts. A wallet that \<^verbatim>\<open>addCredits(2147483547)\<close> has brought to \<^verbatim>\<open>INT_MAX\<close>
  accepts \<^verbatim>\<open>deductCredits(-1, "x")\<close>, and the balance is then \<^verbatim>\<open>INT_MIN\<close>, not
  \<open>INT_MAX + 1\<close>. A new wallet accepts \<^verbatim>\<open>deductCredits(INT_MIN, "x")\<close>, and the delta
  it logs is \<^verbatim>\<open>INT_MIN\<close>, not \<open>- INT_MIN\<close>.
\<close>

theorem deductCredits_counterexample:
  "sint (cached_balance (run_calls CreditWallet_new [Add 2147483547])) = 2147483647
   \<and> fst (deductCredits (run_calls CreditWallet_new [Add 2147483547]) (- 1) ''x'')
   \<and> sint (cached_balance
        (snd (deductCredits (run_calls CreditWallet_new [Add 2147483547]) (- 1) ''x'')))
      = - 2147483648
   \<and> sint (cached_balance (run_calls CreditWallet_new [Add 2147483547])) - sint (- 1 :: int32)
      = 2147483648
   \<and> fst (deductCredits CreditWallet_new (- 2147483648) ''x'')
   \<and> map sint (map tx_credits
        (transactions (snd (deductCredits CreditWallet_new (- 2147483648) ''x''))))
      = [- 2147483648]
   \<and> - sint (- 2147483648 :: int32) = 2147483648"
proof -
  have rich: "cached_balance (run_calls CreditWallet_new [Add 2147483547]) = 2147483647"
    by (simp add: CreditWallet_new_def addCredits_def Let_def)
  have accepted: "(- 1 :: int32) \<le>s 2147483647"
    by (simp add: word_sle_eq)
  have "sint (cached_balance (run_calls CreditWallet_new [Add 2147483547])) = 2147483647"
    unfolding rich by simp
  moreover have "fst (deductCredits (run_calls CreditWallet_new [Add 2147483547]) (- 1) ''x'')"
    using accepted by (simp add: deductCredits_def rich Let_def del: run_calls.simps)
  moreover have "cached_balance
      (snd (deductCredits (run_calls CreditWallet_new [Add 2147483547]) (- 1) ''x''))
      = 2147483647 - (- 1)"
    using accepted by (simp add: deductCredits_def rich Let_def del: run_calls.simps)
  then have "sint (cached_balance
      (snd (deductCredits (run_calls CreditWallet_new [Add 2147483547]) (- 1) ''x'')))
      = - 2147483648"
    by simp
  moreover have "sint (cached_balance (run_calls CreditWallet_new [Add 2147483547]))
      - sint (- 1 :: int32) = 2147483648"
    unfolding rich by simp
  moreover have least: "(- 2147483648 :: int32) \<le>s cached_balance CreditWallet_new"
    by (simp add: CreditWallet_new_def word_sle_eq)
  then have "fst (deductCredits CreditWallet_new (- 2147483648) ''x'')"
    and "map sint (map tx_credits
        (transactions (snd (deductCredits CreditWallet_new (- 2147483648) ''x''))))
      = [- 2147483648]"
    by (simp_all add: deductCredits_def Let_def CreditWallet_new_def)
  moreover have "- sint (- 2147483648 :: int32) = 2147483648"
    by simp
  ultimately show ?thesis
    by (intro conjI)
qed

lemma apply_call_balance:
  "cached_balance (snd (apply_call w c))
     = cached_balance w + (if fst (apply_call w c) then call_delta c else 0)"
  by (cases c) (simp_all add: deductCredits_def addCredits_def Let_def)

lemma apply_call_log:
  "map tx_credits (transactions (snd (apply_call w c)))
     = map tx_credits (transactions w) @ (if fst (apply_call w c) then [call_delta c] else [])"
  by (cases c) (simp_all add: deductCredits_def addCredits_def Let_def)

lemma run_calls_balance:
  "cached_balance (run_calls w cs) = cached_balance w + sum_list (applied_deltas w cs)"
  by (induction cs arbitrary: w) (simp_all add: apply_call_balance)

lemma run_calls_log:
  "map tx_credits (transactions (run_calls w cs))
     = map tx_credits (transactions w) @ applied_deltas w cs"
  by (induction cs arbitrary: w) (simp_all add: apply_call_log)

lemma applied_deltas_calls: "applied_deltas w cs = map call_delta (applied_calls w cs)"
  by (induction cs arbitrary: w) simp_all

lemma call_delta_of_int: "call_delta c = word_of_int (call_int_delta c)"
  by (cases c) simp_all

lemma sint_call_delta: "sint (call_delta c) = call_int_delta c" if "\<not> negation_wraps c"
  using that by (cases c) (simp_all add: sint_neg_no_wrap)

lemma sum_list_call_deltas:
  "sum_list (map call_delta cs) = word_of_int (sum_list (map call_int_delta cs))"
  by (induction cs) (simp_all add: call_delta_of_int)

lemma sum_list_words: "sum_list ws = word_of_int (sum_list (map sint ws))" for ws :: "int32 list"
  by (induction ws) simp_all

text \<open>
  C1, as amended. After any finite sequence of \<^verbatim>\<open>deductCredits\<close> and
  \<^verbatim>\<open>addCredits\<close> calls on a new wallet, \<^verbatim>\<open>getBalance()\<close> is the seed 100 plus the
  sum of the deltas of the applied calls in 32-bit arithmetic, that is modulo \<open>2^32\<close>;
  the deltas logged are exactly those of the applied calls, in order (a deduction that
  returned false logs nothing); so the balance is also the seed plus the sum of the
  logged deltas, modulo \<open>2^32\<close>. As integers: the balance is the seed plus the sum of
  the deltas of the applied calls whenever that integer sum lies within \<^verbatim>\<open>int\<close>, and
  the seed plus the sum of the logged deltas whenever that sum lies within \<^verbatim>\<open>int\<close>;
  the logged deltas are the integer deltas of the applied calls when no applied deduction
  has the amount \<^verbatim>\<open>INT_MIN\<close>.
\<close>

theorem balance_is_seed_plus_deltas:
  "fst (getBalance (run_calls CreditWallet_new cs))
      = 100 + sum_list (applied_deltas CreditWallet_new cs)
   \<and> map tx_credits (transactions (run_calls CreditWallet_new cs))
      = applied_deltas CreditWallet_new cs
   \<and> fst (getBalance (run_calls CreditWallet_new cs))
      = 100 + sum_list (map tx_credits (transactions (run_calls CreditWallet_new cs)))
   \<and> applied_deltas CreditWallet_new cs = map call_delta (applied_calls CreditWallet_new cs)
   \<and> (- (2 ^ 31) \<le> 100 + sum_list (map call_int_delta (applied_calls CreditWallet_new cs))
        \<and> 100 + sum_list (map call_int_delta (applied_calls CreditWallet_new cs)) < 2 ^ 31
      \<longrightarrow> sint (fst (getBalance (run_calls CreditWallet_new cs)))
          = 100 + sum_list (map call_int_delta (applied_calls CreditWallet_new cs)))
   \<and> (- (2 ^ 31) \<le> 100 + sum_list (map (\<lambda>t. sint (tx_credits t))
            (transactions (run_calls CreditWallet_new cs)))
        \<and> 100 + sum_list (map (\<lambda>t. sint (tx_credits t))
            (transactions (run_calls CreditWallet_new cs))) < 2 ^ 31
      \<longrightarrow> sint (fst (getBalance (run_calls CreditWallet_new cs)))
          = 100 + sum_list (map (\<lambda>t. sint (tx_credits t))
              (transactions (run_calls CreditWallet_new cs))))
   \<and> ((\<forall>c\<in>set (applied_calls CreditWallet_new cs). \<not> negation_wraps c)
      \<longrightarrow> map (\<lambda>t. sint (tx_credits t)) (transactions (run_calls CreditWallet_new cs))
          = map call_int_delta (applied_calls CreditWallet_new cs))"
proof -
  let ?w = "run_calls CreditWallet_new cs"
  let ?applied = "applied_calls CreditWallet_new cs"
  have seed: "cached_balance CreditWallet_new = 100" and "transactions CreditWallet_new = []"
    by (simp_all add: CreditWallet_new_def)
  then have balance: "cached_balance ?w = 100 + sum_list (applied_deltas CreditWallet_new cs)"
    and log: "map tx_credits (transactions ?w) = applied_deltas CreditWallet_new cs"
    using run_calls_balance [of CreditWallet_new cs] run_calls_log [of CreditWallet_new cs]
    by simp_all
  have calls: "applied_deltas CreditWallet_new cs = map call_delta ?applied"
    by (rule applied_deltas_calls)
  have "cached_balance ?w = word_of_int (100 + sum_list (map call_int_delta ?applied))"
    unfolding balance calls sum_list_call_deltas by simp
  then have by_calls: "sint (cached_balance ?w) = 100 + sum_list (map call_int_delta ?applied)"
    if "- (2 ^ 31) \<le> 100 + sum_list (map call_int_delta ?applied)"
      and "100 + sum_list (map call_int_delta ?applied) < 2 ^ 31"
    using that by (simp only: sint_of_int_in_range)
  have "sum_list (map tx_credits (transactions ?w))
      = word_of_int (sum_list (map sint (map tx_credits (transactions ?w))))"
    by (rule sum_list_words)
  then have "cached_balance ?w
      = word_of_int (100 + sum_list (map (\<lambda>t. sint (tx_credits t)) (transactions ?w)))"
    unfolding balance log [symmetric] by (simp add: comp_def)
  then have by_log: "sint (cached_balance ?w)
      = 100 + sum_list (map (\<lambda>t. sint (tx_credits t)) (transactions ?w))"
    if "- (2 ^ 31) \<le> 100 + sum_list (map (\<lambda>t. sint (tx_credits t)) (transactions ?w))"
      and "100 + sum_list (map (\<lambda>t. sint (tx_credits t)) (transactions ?w)) < 2 ^ 31"
    using that by (simp only: sint_of_int_in_range)
  have "map (\<lambda>t. sint (tx_credits t)) (transactions ?w) = map sint (map tx_credits (transactions ?w))"
    by (simp add: comp_def)
  also have "\<dots> = map (\<lambda>c. sint (call_delta c)) ?applied"
    unfolding log calls by (simp add: comp_def)
  finally have logged: "map (\<lambda>t. sint (tx_credits t)) (transactions ?w) = map call_int_delta ?applied"
    if "\<forall>c\<in>set ?applied. \<not> negation_wraps c"
    using that by (simp add: sint_call_delta)
  show ?thesis
    using balance log calls by_calls by_log logged
    by (simp add: getBalance_def)
qed

theorem balance_is_seed_plus_deltas_witness:
  "fst (getBalance (run_calls CreditWallet_new [Deduct 5 ''x'', Add 10, Deduct 1000 ''y''])) = 105
   \<and> sint (fst (getBalance (run_calls CreditWallet_new
        [Deduct 5 ''x'', Add 10, Deduct 1000 ''y'']))) = 105
   \<and> map tx_credits (transactions (run_calls CreditWallet_new
        [Deduct 5 ''x'', Add 10, Deduct 1000 ''y''])) = [- 5, 10]
   \<and> map (\<lambda>t. sint (tx_credits t)) (transactions (run_calls CreditWallet_new
        [Deduct 5 ''x'', Add 10, Deduct 1000 ''y''])) = [- 5, 10]"
proof -
  let ?cs = "[Deduct 5 ''x'', Add 10, Deduct 1000 ''y'']"
  let ?w = "run_calls CreditWallet_new ?cs"
  have applied: "applied_calls CreditWallet_new ?cs = [Deduct 5 ''x'', Add 10]"
    by (simp add: CreditWallet_new_def deductCredits_def addCredits_def Let_def)
  have deltas: "applied_deltas CreditWallet_new ?cs = [- 5, 10]"
    by (simp add: CreditWallet_new_def deductCredits_def addCredits_def Let_def)
  have total: "- (2 ^ 31) \<le> 100 + sum_list (map call_int_delta (applied_calls CreditWallet_new ?cs))
      \<and> 100 + sum_list (map call_int_delta (applied_calls CreditWallet_new ?cs)) < 2 ^ 31"
    and clean: "\<forall>c\<in>set (applied_calls CreditWallet_new ?cs). \<not> negation_wraps c"
    and sum: "100 + sum_list (map call_int_delta (applied_calls CreditWallet_new ?cs)) = 105"
    and ints: "map call_int_delta (applied_calls CreditWallet_new ?cs) = [- 5, 10]"
    unfolding applied by simp_all
  note facts = balance_is_seed_plus_deltas [of ?cs]
  from facts have "fst (getBalance ?w) = 100 + sum_list (applied_deltas CreditWallet_new ?cs)"
    and "map tx_credits (transactions ?w) = applied_deltas CreditWallet_new ?cs"
    by blast+
  then have words: "fst (getBalance ?w) = 105" "map tx_credits (transactions ?w) = [- 5, 10]"
    unfolding deltas by simp_all
  from facts total have "sint (fst (getBalance ?w))
      = 100 + sum_list (map call_int_delta (applied_calls CreditWallet_new ?cs))"
    by blast
  then have int_balance: "sint (fst (getBalance ?w)) = 105"
    unfolding sum .
  from facts clean have "map (\<lambda>t. sint (tx_credits t)) (transactions ?w)
      = map call_int_delta (applied_calls CreditWallet_new ?cs)"
    by blast
  then have "map (\<lambda>t. sint (tx_credits t)) (transactions ?w) = [- 5, 10]"
    unfolding ints .
  with words int_balance show ?thesis
    by (intro conjI)
qed

text \<open>
  The claim as it is written, read on integers, fails for a sequence it covers: after
  \<^verbatim>\<open>addCredits(2147483647)\<close> on a new wallet, applied and logged with that delta, the
  balance is \<open>-2147483549\<close>, while the seed plus the sum of the deltas is \<open>2147483747\<close>.
\<close>

theorem balance_is_seed_plus_deltas_counterexample:
  "applied_calls CreditWallet_new [Add 2147483647] = [Add 2147483647]
   \<and> map sint (map tx_credits (transactions (run_calls CreditWallet_new [Add 2147483647])))
      = [2147483647]
   \<and> sint (fst (getBalance (run_calls CreditWallet_new [Add 2147483647]))) = - 2147483549
   \<and> 100 + sum_list (map call_int_delta (applied_calls CreditWallet_new [Add 2147483647]))
      = 2147483747"
  by (simp add: CreditWallet_new_def addCredits_def getBalance_def Let_def)

section \<open>The transaction history\<close>






lemma new_log: "transactions CreditWallet_new = []"
  by (simp add: CreditWallet_new_def)






text \<open>
  A limit far below zero is worse than a wrong count: for \<open>k = INT_MIN\<close> on a new wallet
  the start index wraps around to \<open>INT_MIN\<close>, the loop condition holds, and the loop
  reads \<^verbatim>\<open>transactions[i]\<close> outside the vector.
\<close>

lemma getTransactionHistory_int_min:
  "getTransactionHistory CreditWallet_new (- 2147483648) = Inl OutOfRange"
proof -
  have count: "std_min (- 2147483648) (int_of_size (vec_size ([] :: Transaction list)))
      = - 2147483648"
    by (simp add: int_of_vec_size std_min_def word_sless_alt)
  have start: "int_of_size (vec_size ([] :: Transaction list) - size_of_int (- 2147483648))
      = - 2147483648"
    by (simp only: int_of_size_diff) simp
  have loop: "history_loop [] (- 2147483648) [] = Inl OutOfRange"
    by (subst history_loop.simps) (simp add: int_of_vec_size word_sless_alt)
  show ?thesis
    unfolding getTransactionHistory_def Let_def new_log count start loop by simp
qed

section \<open>Credit checks\<close>

lemma getCreditBalance_eq: "getCreditBalance ai = (cached_balance (wallet ai), ai)"
  by (simp add: getCreditBalance_def getBalance_def)

lemma validateCredits_eq:
  "validateCredits ai n = (n \<le>s cached_balance (wallet ai), ai)"
  by (simp add: validateCredits_def getCreditBalance_eq)

text \<open>
  C5. \<^verbatim>\<open>validateCredits(n)\<close> returns true if and only if
  \<open>n \<le> getCreditBalance()\<close>, and the integration after the call, its wallet balance and
  transaction log included, is the one before it.
\<close>

theorem validateCredits_pure:
  "fst (validateCredits ai n) = (n \<le>s fst (getCreditBalance ai))
   \<and> snd (validateCredits ai n) = ai
   \<and> cached_balance (wallet (snd (validateCredits ai n))) = cached_balance (wallet ai)
   \<and> transactions (wallet (snd (validateCredits ai n))) = transactions (wallet ai)"
  by (simp add: validateCredits_eq getCreditBalance_eq)

theorem validateCredits_pure_witness:
  "fst (validateCredits AIIntegration_new 1) \<and> \<not> fst (validateCredits AIIntegration_new 10000)
   \<and> snd (validateCredits AIIntegration_new 10000) = AIIntegration_new"
proof -
  have balance: "fst (getCreditBalance AIIntegration_new) = 100"
    by (simp add: getCreditBalance_eq AIIntegration_new_def CreditWallet_new_def)
  from validateCredits_pure [of AIIntegration_new 1]
  have "fst (validateCredits AIIntegration_new 1)"
    unfolding balance by (simp add: word_sle_eq)
  moreover from validateCredits_pure [of AIIntegration_new 10000]
  have "\<not> fst (validateCredits AIIntegration_new 10000)"
    and "snd (validateCredits AIIntegration_new 10000) = AIIntegration_new"
    unfolding balance by simp_all
  ultimately show ?thesis
    by simp
qed

section \<open>The operations on the metered provider\<close>

text \<open>
  What a per-modality operation with the fixed cost \<open>cost\<close> and the placeholder text
  \<open>text\<close> does on XenoCloud, read off the five function bodies.
\<close>

lemma AIIntegration_deductCredits_enough:
  "AIIntegration_deductCredits ai amount =
     (True, ai\<lparr>wallet := (wallet ai)\<lparr>cached_balance := cached_balance (wallet ai) - amount,
        transactions := transactions (wallet ai) @
          [\<lparr>tx_id = next_tx_id (transactions (wallet ai)), tx_operation = ''api_call'',
            tx_credits = - amount, tx_timestamp = ''2024-01-01T00:00:00Z'',
            tx_success = True\<rparr>]\<rparr>\<rparr>)"
  if "amount \<le>s cached_balance (wallet ai)"
  using that by (simp add: AIIntegration_deductCredits_def deductCredits_def Let_def)

lemma generateImage_metered:
  "generateImage ai request XenoCloud =
     (if cached_balance (wallet ai) <s 3 then (refused, ai)
      else (served ''Generated image data (placeholder)'' 3, charged ai 3))"
  by (simp add: generateImage_def validateCredits_eq AIIntegration_deductCredits_enough
      refused_def served_def charged_def signed.not_le)

lemma processVideo_metered:
  "processVideo ai request XenoCloud =
     (if cached_balance (wallet ai) <s 5 then (refused, ai)
      else (served ''Processed video data (placeholder)'' 5, charged ai 5))"
  by (simp add: processVideo_def validateCredits_eq AIIntegration_deductCredits_enough
      refused_def served_def charged_def signed.not_le)

lemma processAudio_metered:
  "processAudio ai request XenoCloud =
     (if cached_balance (wallet ai) <s 2 then (refused, ai)
      else (served ''Processed audio data (placeholder)'' 2, charged ai 2))"
  by (simp add: processAudio_def validateCredits_eq AIIntegration_deductCredits_enough
      refused_def served_def charged_def signed.not_le)

lemma completeCode_metered:
  "completeCode ai request XenoCloud =
     (if cached_balance (wallet ai) <s 1 then (refused, ai)
      else (served ''Code completion suggestion (placeholder)'' 1, charged ai 1))"
  by (simp add: completeCode_def validateCredits_eq AIIntegration_deductCredits_enough
      refused_def served_def charged_def signed.not_le)

lemma chatCompletion_metered:
  "chatCompletion ai request XenoCloud =
     (if cached_balance (wallet ai) <s 1 then (refused, ai)
      else (served ''Chat response (placeholder)'' 1, charged ai 1))"
  by (simp add: chatCompletion_def validateCredits_eq AIIntegration_deductCredits_enough
      refused_def served_def charged_def signed.not_le)

text \<open>
  C3. On XenoCloud each operation checks its fixed cost (image 3, video 5, audio 2,
  code 1, chat 1). Below the cost it returns \<open>success = false\<close> with the message
  \<open>Insufficient credits\<close> and the integration is unchanged. Otherwise it returns
  \<open>success = true\<close> with \<open>credits_used\<close> the cost, the balance is the old one minus the
  cost (without wrap-around), one \<open>api_call\<close> transaction with delta minus the cost is
  logged, and the configurations are unchanged. \<^verbatim>\<open>completeCode\<close> at balance \<open>0\<close> is
  the failing case.
\<close>

theorem metered_operations:
  assumes "(operation, cost) \<in> {(generateImage, 3), (processVideo, 5), (processAudio, 2),
      (completeCode, 1), (chatCompletion, 1)}"
    and "operation ai request XenoCloud = (response, ai')"
  shows "(if cached_balance (wallet ai) <s cost then
            success response = Some False
            \<and> error_message response = ''Insufficient credits''
            \<and> ai' = ai
          else
            success response = Some True
            \<and> credits_used response = Some cost
            \<and> cached_balance (wallet ai') = cached_balance (wallet ai) - cost
            \<and> sint (cached_balance (wallet ai')) = sint (cached_balance (wallet ai)) - sint cost
            \<and> transactions (wallet ai') = transactions (wallet ai) @
                [\<lparr>tx_id = next_tx_id (transactions (wallet ai)), tx_operation = ''api_call'',
                  tx_credits = - cost, tx_timestamp = ''2024-01-01T00:00:00Z'',
                  tx_success = True\<rparr>]
            \<and> configs ai' = configs ai)
         \<and> (cached_balance (wallet ai) = 0 \<longrightarrow>
              success (fst (completeCode ai request XenoCloud)) = Some False
              \<and> error_message (fst (completeCode ai request XenoCloud)) = ''Insufficient credits''
              \<and> snd (completeCode ai request XenoCloud) = ai)"
proof -
  from assms(1) obtain placeholder where
    result: "operation ai request XenoCloud =
      (if cached_balance (wallet ai) <s cost then (refused, ai)
       else (served placeholder cost, charged ai cost))"
    and positive: "0 \<le>s cost"
    by (auto simp add: generateImage_metered processVideo_metered processAudio_metered
        completeCode_metered chatCompletion_metered word_sle_eq)
  have first: "if cached_balance (wallet ai) <s cost then
            success response = Some False
            \<and> error_message response = ''Insufficient credits''
            \<and> ai' = ai
          else
            success response = Some True
            \<and> credits_used response = Some cost
            \<and> cached_balance (wallet ai') = cached_balance (wallet ai) - cost
            \<and> sint (cached_balance (wallet ai')) = sint (cached_balance (wallet ai)) - sint cost
            \<and> transactions (wallet ai') = transactions (wallet ai) @
                [\<lparr>tx_id = next_tx_id (transactions (wallet ai)), tx_operation = ''api_call'',
                  tx_credits = - cost, tx_timestamp = ''2024-01-01T00:00:00Z'',
                  tx_success = True\<rparr>]
            \<and> configs ai' = configs ai"
  proof (cases "cached_balance (wallet ai) <s cost")
    case True
    with result assms(2) show ?thesis
      by (simp add: refused_def AIResponse_default_def)
  next
    case False
    then have "cost \<le>s cached_balance (wallet ai)"
      by (simp add: signed.not_less)
    with positive
    have "sint (cached_balance (wallet ai) - cost) = sint (cached_balance (wallet ai)) - sint cost"
      by (rule sint_diff_no_wrap)
    with False result assms(2) show ?thesis
      by (auto simp add: served_def charged_def AIResponse_default_def)
  qed
  have "completeCode ai request XenoCloud = (refused, ai)" if "cached_balance (wallet ai) = 0"
    using that by (simp add: completeCode_metered word_sless_alt)
  then have "cached_balance (wallet ai) = 0 \<longrightarrow>
      success (fst (completeCode ai request XenoCloud)) = Some False
      \<and> error_message (fst (completeCode ai request XenoCloud)) = ''Insufficient credits''
      \<and> snd (completeCode ai request XenoCloud) = ai"
    by (simp add: refused_def AIResponse_default_def)
  with first show ?thesis
    by (rule conjI)
qed

theorem metered_operations_witness:
  "success (fst (completeCode AIIntegration_new example_request XenoCloud)) = Some True
   \<and> credits_used (fst (completeCode AIIntegration_new example_request XenoCloud)) = Some 1
   \<and> cached_balance (wallet (snd (completeCode AIIntegration_new example_request XenoCloud))) = 99
   \<and> success (fst (processVideo (snd (AIIntegration_deductCredits AIIntegration_new 96))
        example_request XenoCloud)) = Some False
   \<and> snd (processVideo (snd (AIIntegration_deductCredits AIIntegration_new 96))
        example_request XenoCloud) = snd (AIIntegration_deductCredits AIIntegration_new 96)"
proof -
  have rich: "cached_balance (wallet AIIntegration_new) = 100"
    by (simp add: AIIntegration_new_def CreditWallet_new_def)
  let ?poor = "snd (AIIntegration_deductCredits AIIntegration_new 96)"
  have poor: "cached_balance (wallet ?poor) = 4"
    by (simp add: AIIntegration_deductCredits_def deductCredits_def AIIntegration_new_def
        CreditWallet_new_def Let_def)
  have "(completeCode, 1 :: int32) \<in> {(generateImage, 3), (processVideo, 5), (processAudio, 2),
      (completeCode, 1), (chatCompletion, 1)}"
    by simp
  from metered_operations [OF this surjective_pairing, of AIIntegration_new example_request]
  have code: "success (fst (completeCode AIIntegration_new example_request XenoCloud)) = Some True
    \<and> credits_used (fst (completeCode AIIntegration_new example_request XenoCloud)) = Some 1
    \<and> cached_balance (wallet (snd (completeCode AIIntegration_new example_request XenoCloud))) = 99"
    unfolding rich by (simp add: word_sless_alt)
  have "(processVideo, 5 :: int32) \<in> {(generateImage, 3), (processVideo, 5), (processAudio, 2),
      (completeCode, 1), (chatCompletion, 1)}"
    by simp
  from metered_operations [OF this surjective_pairing, of ?poor example_request]
  have "success (fst (processVideo ?poor example_request XenoCloud)) = Some False
    \<and> snd (processVideo ?poor example_request XenoCloud) = ?poor"
    unfolding poor by (simp add: word_sless_alt)
  with code show ?thesis
    by simp
qed

section \<open>The operations on the other providers\<close>

lemma unmetered:
  "generateImage ai request provider = (served ''Generated image data (placeholder)'' 0, ai)"
  "processVideo ai request provider = (served ''Processed video data (placeholder)'' 0, ai)"
  "processAudio ai request provider = (served ''Processed audio data (placeholder)'' 0, ai)"
  "completeCode ai request provider = (served ''Code completion suggestion (placeholder)'' 0, ai)"
  "chatCompletion ai request provider = (served ''Chat response (placeholder)'' 0, ai)"
  if "provider \<noteq> XenoCloud"
  using that
  by (simp_all add: generateImage_def processVideo_def processAudio_def completeCode_def
      chatCompletion_def served_def)

text \<open>
  C9. With OpenRouter or Ollama each of the five operations returns \<open>success = true\<close>
  and \<open>credits_used = 0\<close>, and the integration after the call is the one before it: no
  credit check, no deduction, the balance and the log as they were.
\<close>

theorem unmetered_operations:
  assumes "provider \<noteq> XenoCloud"
    and "operation \<in> {generateImage, processVideo, processAudio, completeCode, chatCompletion}"
    and "operation ai request provider = (response, ai')"
  shows "success response = Some True \<and> credits_used response = Some 0 \<and> ai' = ai
    \<and> cached_balance (wallet ai') = cached_balance (wallet ai)
    \<and> transactions (wallet ai') = transactions (wallet ai)"
proof -
  from assms(2) unmetered [OF assms(1), of ai request]
  obtain placeholder where "operation ai request provider = (served placeholder 0, ai)"
    by auto
  with assms(3) show ?thesis
    by (auto simp add: served_def AIResponse_default_def)
qed

theorem unmetered_operations_witness:
  "success (fst (generateImage AIIntegration_new example_request Ollama)) = Some True
   \<and> credits_used (fst (generateImage AIIntegration_new example_request Ollama)) = Some 0
   \<and> snd (generateImage AIIntegration_new example_request Ollama) = AIIntegration_new"
proof -
  have "Ollama \<noteq> XenoCloud"
    by simp
  moreover have "generateImage \<in> {generateImage, processVideo, processAudio, completeCode,
      chatCompletion}"
    by simp
  ultimately show ?thesis
    using unmetered_operations [OF _ _ surjective_pairing,
        of Ollama generateImage AIIntegration_new example_request]
    by simp
qed

text \<open>
  C10. \<^verbatim>\<open>makeAPICall\<close> returns \<open>success = true\<close> and reports \<open>credits_used = 1\<close> for
  XenoCloud and \<open>0\<close> for the other providers, whatever the endpoint and the payload; the
  integration after the call is the one before it, so the reported credit is never
  deducted and nothing is logged.
\<close>

theorem makeAPICall_reports_only:
  "success (fst (makeAPICall ai provider endpoint_path payload)) = Some True
   \<and> credits_used (fst (makeAPICall ai provider endpoint_path payload))
      = Some (if provider = XenoCloud then 1 else 0)
   \<and> snd (makeAPICall ai provider endpoint_path payload) = ai
   \<and> cached_balance (wallet (snd (makeAPICall ai provider endpoint_path payload)))
      = cached_balance (wallet ai)
   \<and> transactions (wallet (snd (makeAPICall ai provider endpoint_path payload)))
      = transactions (wallet ai)"
  by (simp add: makeAPICall_def AIResponse_default_def)

theorem makeAPICall_reports_only_witness:
  "credits_used (fst (makeAPICall AIIntegration_new XenoCloud ''/v1/chat'' JNull)) = Some 1
   \<and> credits_used (fst (makeAPICall AIIntegration_new Ollama ''/v1/chat'' JNull)) = Some 0
   \<and> snd (makeAPICall AIIntegration_new XenoCloud ''/v1/chat'' JNull) = AIIntegration_new"
  using makeAPICall_reports_only [of AIIntegration_new XenoCloud "''/v1/chat''" JNull]
    makeAPICall_reports_only [of AIIntegration_new Ollama "''/v1/chat''" JNull]
  by simp

section \<open>Loading the configuration\<close>

lemma configure_xeno_ai_ok:
  "configure_xeno_ai ai config = Inr (apply_section ai config XenoCloud)"
  if "section_ok config XenoCloud"
  using that
  by (auto simp add: configure_xeno_ai_def section_ok_def section_present_def apply_section_def
      section_entry_def configure_def split: sum.splits)

lemma configure_xeno_ai_throws:
  "isl (configure_xeno_ai ai config)" if "\<not> section_ok config XenoCloud"
  using that
  by (auto simp add: configure_xeno_ai_def section_ok_def section_present_def split: sum.splits)

lemma configure_open_router_ok:
  "configure_open_router ai config = Inr (apply_section ai config OpenRouter)"
  if "section_ok config OpenRouter"
  using that
  by (auto simp add: configure_open_router_def section_ok_def section_present_def
      apply_section_def section_entry_def configure_def split: sum.splits)

lemma configure_open_router_throws:
  "isl (configure_open_router ai config)" if "\<not> section_ok config OpenRouter"
  using that
  by (auto simp add: configure_open_router_def section_ok_def section_present_def
      split: sum.splits)

lemma configure_ollama_ok:
  "configure_ollama ai config = Inr (apply_section ai config Ollama)"
  if "section_ok config Ollama"
  using that
  by (auto simp add: configure_ollama_def section_ok_def section_present_def
      apply_section_def section_entry_def configure_def split: sum.splits)

lemma configure_ollama_throws:
  "isl (configure_ollama ai config)" if "\<not> section_ok config Ollama"
  using that
  by (auto simp add: configure_ollama_def section_ok_def section_present_def split: sum.splits)

lemma load_parsed:
  assumes "files path = Some doc" and "parse doc = Some config"
  shows "loadConfigFromFile files parse ai path =
    (if \<not> section_ok config XenoCloud then (False, ai)
     else if \<not> section_ok config OpenRouter then (False, apply_section ai config XenoCloud)
     else if \<not> section_ok config Ollama then
       (False, apply_section (apply_section ai config XenoCloud) config OpenRouter)
     else (True, apply_section
        (apply_section (apply_section ai config XenoCloud) config OpenRouter) config Ollama))"
proof -
  have throws: "(case r of Inl e \<Rightarrow> a | Inr x \<Rightarrow> f x) = a" if "isl r"
    for r :: "json_exception + AIIntegration" and a :: "bool \<times> AIIntegration" and f
    using that by (cases r) simp_all
  have body: "loadConfigFromFile files parse ai path =
    (case configure_xeno_ai ai config of
       Inl e \<Rightarrow> (False, ai)
     | Inr ai1 \<Rightarrow>
         (case configure_open_router ai1 config of
            Inl e \<Rightarrow> (False, ai1)
          | Inr ai2 \<Rightarrow>
              (case configure_ollama ai2 config of
                 Inl e \<Rightarrow> (False, ai2)
               | Inr ai3 \<Rightarrow> (True, ai3))))"
    by (simp add: loadConfigFromFile_def assms)
  show ?thesis
  proof (cases "section_ok config XenoCloud")
    case False
    then show ?thesis
      unfolding body by (simp add: configure_xeno_ai_throws throws)
  next
    case xeno: True
    show ?thesis
    proof (cases "section_ok config OpenRouter")
      case False
      with xeno show ?thesis
        unfolding body
        by (simp add: configure_xeno_ai_ok configure_open_router_throws throws)
    next
      case router: True
      show ?thesis
      proof (cases "section_ok config Ollama")
        case False
        with xeno router show ?thesis
          unfolding body
          by (simp add: configure_xeno_ai_ok configure_open_router_ok configure_ollama_throws
              throws)
      next
        case True
        with xeno router show ?thesis
          unfolding body
          by (simp add: configure_xeno_ai_ok configure_open_router_ok configure_ollama_ok)
      qed
    qed
  qed
qed

lemma apply_section_wallet: "wallet (apply_section ai config p) = wallet ai"
  by (simp add: apply_section_def)

lemma apply_section_configs:
  "configs (apply_section ai config p) q =
     (if q = p \<and> section_present config p then Some (section_entry config p) else configs ai q)"
  by (simp add: apply_section_def)

text \<open>
  C7, as amended. \<^verbatim>\<open>loadConfigFromFile\<close> returns false and leaves the integration
  as it is when the file cannot be opened or its text does not parse. On a parsed
  document it returns true exactly when every section is in order (missing, or with its
  string fields); the wallet is untouched; and a provider is configured from its section
  exactly when the section is present and in order and the sections before it are in
  order too, otherwise its entry is as before. So a missing section is skipped and is
  no error, while a faulty section makes the call return false after the sections before
  it have been applied.
\<close>

theorem loadConfigFromFile_outcomes:
  "(files path = None \<longrightarrow> loadConfigFromFile files parse ai path = (False, ai))
   \<and> (\<forall>doc. files path = Some doc \<and> parse doc = None
        \<longrightarrow> loadConfigFromFile files parse ai path = (False, ai))
   \<and> (\<forall>doc config. files path = Some doc \<and> parse doc = Some config
        \<longrightarrow> fst (loadConfigFromFile files parse ai path)
              = (section_ok config XenoCloud \<and> section_ok config OpenRouter
                  \<and> section_ok config Ollama)
          \<and> wallet (snd (loadConfigFromFile files parse ai path)) = wallet ai
          \<and> (\<forall>p. configs (snd (loadConfigFromFile files parse ai path)) p
                = (if section_present config p \<and> section_ok config p
                      \<and> list_all (section_ok config) (earlier_sections p)
                   then Some (section_entry config p) else configs ai p)))"
proof (intro conjI allI impI)
  assume "files path = None"
  then show "loadConfigFromFile files parse ai path = (False, ai)"
    by (simp add: loadConfigFromFile_def)
next
  fix doc
  assume "files path = Some doc \<and> parse doc = None"
  then show "loadConfigFromFile files parse ai path = (False, ai)"
    by (simp add: loadConfigFromFile_def)
next
  fix doc config
  assume parsed: "files path = Some doc \<and> parse doc = Some config"
  then have load: "loadConfigFromFile files parse ai path =
    (if \<not> section_ok config XenoCloud then (False, ai)
     else if \<not> section_ok config OpenRouter then (False, apply_section ai config XenoCloud)
     else if \<not> section_ok config Ollama then
       (False, apply_section (apply_section ai config XenoCloud) config OpenRouter)
     else (True, apply_section
        (apply_section (apply_section ai config XenoCloud) config OpenRouter) config Ollama))"
    by (simp add: load_parsed)
  show "fst (loadConfigFromFile files parse ai path)
      = (section_ok config XenoCloud \<and> section_ok config OpenRouter \<and> section_ok config Ollama)"
    unfolding load by simp
  show "wallet (snd (loadConfigFromFile files parse ai path)) = wallet ai"
    unfolding load by (simp add: apply_section_wallet)
  fix p
  show "configs (snd (loadConfigFromFile files parse ai path)) p
      = (if section_present config p \<and> section_ok config p
            \<and> list_all (section_ok config) (earlier_sections p)
         then Some (section_entry config p) else configs ai p)"
    unfolding load by (cases p) (simp_all add: apply_section_configs)
qed

theorem loadConfigFromFile_outcomes_witness:
  "loadConfigFromFile example_files example_parse AIIntegration_new ''missing.json''
      = (False, AIIntegration_new)
   \<and> loadConfigFromFile example_files example_parse AIIntegration_new ''broken.json''
      = (False, AIIntegration_new)
   \<and> fst (loadConfigFromFile example_files example_parse AIIntegration_new ''local.json'')
   \<and> configs (snd (loadConfigFromFile example_files example_parse AIIntegration_new
        ''local.json'')) Ollama
      = Some \<lparr>endpoint = ''http://localhost:11434'', api_key = '''', headers = Map.empty\<rparr>
   \<and> configs (snd (loadConfigFromFile example_files example_parse AIIntegration_new
        ''local.json'')) XenoCloud = None"
proof -
  let ?config = "JObject [(''ollama'', JObject [(''endpoint'', JString ''http://localhost:11434'')])]"
  have missing: "example_files ''missing.json'' = None"
    and broken: "example_files ''broken.json'' = Some ''not json'' \<and> example_parse ''not json'' = None"
    and local: "example_files ''local.json'' = Some ''ollama only''
      \<and> example_parse ''ollama only'' = Some ?config"
    by (simp_all add: example_files_def example_parse_def)
  have ok: "section_ok ?config XenoCloud" "section_ok ?config OpenRouter" "section_ok ?config Ollama"
    and present: "\<not> section_present ?config XenoCloud" "section_present ?config Ollama"
    and entry: "section_entry ?config Ollama
      = \<lparr>endpoint = ''http://localhost:11434'', api_key = '''', headers = Map.empty\<rparr>"
    by (simp_all add: section_ok_def section_present_def section_entry_def config_string_def)
  note outcomes = loadConfigFromFile_outcomes [of example_files _ example_parse AIIntegration_new]
  from outcomes [of "''missing.json''"] missing
  have first: "loadConfigFromFile example_files example_parse AIIntegration_new ''missing.json''
      = (False, AIIntegration_new)"
    by blast
  from outcomes [of "''broken.json''"] broken
  have second: "loadConfigFromFile example_files example_parse AIIntegration_new ''broken.json''
      = (False, AIIntegration_new)"
    by blast
  from outcomes [of "''local.json''"] local
  have "fst (loadConfigFromFile example_files example_parse AIIntegration_new ''local.json'')
          = (section_ok ?config XenoCloud \<and> section_ok ?config OpenRouter
              \<and> section_ok ?config Ollama)"
    and "\<forall>p. configs (snd (loadConfigFromFile example_files example_parse AIIntegration_new
            ''local.json'')) p
          = (if section_present ?config p \<and> section_ok ?config p
                \<and> list_all (section_ok ?config) (earlier_sections p)
             then Some (section_entry ?config p) else configs AIIntegration_new p)"
    by blast+
  then have "fst (loadConfigFromFile example_files example_parse AIIntegration_new ''local.json'')"
    and "configs (snd (loadConfigFromFile example_files example_parse AIIntegration_new
          ''local.json'')) Ollama
        = Some \<lparr>endpoint = ''http://localhost:11434'', api_key = '''', headers = Map.empty\<rparr>"
    and "configs (snd (loadConfigFromFile example_files example_parse AIIntegration_new
          ''local.json'')) XenoCloud = None"
    by (simp_all add: ok present entry AIIntegration_new_def)
  with first second show ?thesis
    by simp
qed

text \<open>
  The claim as it is written fails on the file whose \<open>open_router\<close> section lacks its
  \<open>endpoint\<close>: the call returns false, a configuration failure, and XenoCloud, not
  configured before, is configured after it.
\<close>

theorem loadConfigFromFile_counterexample:
  "fst (loadConfigFromFile example_files example_parse AIIntegration_new ''partial.json'') = False
   \<and> configs AIIntegration_new XenoCloud = None
   \<and> configs (snd (loadConfigFromFile example_files example_parse AIIntegration_new
        ''partial.json'')) XenoCloud
      = Some \<lparr>endpoint = ''https://api.xenolabs.ai'', api_key = ''k1'',
               headers = [''Authorization'' \<mapsto> ''Bearer k1'']\<rparr>"
proof -
  let ?config = "JObject [(''xeno_ai'', JObject [(''endpoint'', JString ''https://api.xenolabs.ai''),
                                        (''api_key'', JString ''k1'')]),
                 (''open_router'', JObject [(''api_key'', JString ''k2'')])]"
  have xeno: "configure_xeno_ai AIIntegration_new ?config
      = Inr (AIIntegration_new\<lparr>configs := (configs AIIntegration_new)(XenoCloud \<mapsto>
          \<lparr>endpoint = ''https://api.xenolabs.ai'', api_key = ''k1'',
           headers = [''Authorization'' \<mapsto> ''Bearer k1'']\<rparr>)\<rparr>)"
    by (simp add: configure_xeno_ai_def config_string_def configure_def)
  have router: "configure_open_router ai ?config = Inl TypeError302" for ai
    by (simp add: configure_open_router_def config_string_def)
  have "loadConfigFromFile example_files example_parse AIIntegration_new ''partial.json''
      = (False, AIIntegration_new\<lparr>configs := (configs AIIntegration_new)(XenoCloud \<mapsto>
          \<lparr>endpoint = ''https://api.xenolabs.ai'', api_key = ''k1'',
           headers = [''Authorization'' \<mapsto> ''Bearer k1'']\<rparr>)\<rparr>)"
    unfolding loadConfigFromFile_def
    by (simp add: example_files_def example_parse_def xeno router)
  then show ?thesis
    by (simp add: AIIntegration_new_def)
qed

section \<open>The sign of the balance\<close>

text \<open>
  C8, as amended. The seed balance is non-negative. \<^verbatim>\<open>authenticate\<close>,
  \<^verbatim>\<open>getBalance\<close> and \<^verbatim>\<open>getTransactionHistory\<close> (when it returns) leave the balance
  as it is, so a non-negative balance stays non-negative. From a non-negative balance,
  \<^verbatim>\<open>deductCredits\<close> keeps it non-negative for every amount \<open>\<ge> 0\<close>, and for a negative
  amount as long as \<open>balance - amount\<close> stays within \<^verbatim>\<open>int\<close>; \<^verbatim>\<open>addCredits\<close> keeps it
  non-negative when \<open>0 \<le> balance + amount \<le> INT_MAX\<close>.
\<close>

theorem balance_stays_nonnegative:
  "0 \<le>s cached_balance CreditWallet_new
   \<and> cached_balance (snd (authenticate w token)) = cached_balance w
   \<and> transactions (snd (authenticate w token)) = transactions w
   \<and> snd (getBalance w) = w
   \<and> fst (getBalance w) = cached_balance w
   \<and> (\<forall>entries w'. getTransactionHistory w k = Inr (entries, w') \<longrightarrow> w' = w)
   \<and> (0 \<le>s cached_balance w \<longrightarrow>
        0 \<le>s cached_balance (snd (authenticate w token))
      \<and> 0 \<le>s cached_balance (snd (getBalance w))
      \<and> (\<forall>entries w'. getTransactionHistory w k = Inr (entries, w') \<longrightarrow> 0 \<le>s cached_balance w')
      \<and> (0 \<le>s amount \<longrightarrow> 0 \<le>s cached_balance (snd (deductCredits w amount operation)))
      \<and> (sint (cached_balance w) - sint amount < 2 ^ 31
           \<longrightarrow> 0 \<le>s cached_balance (snd (deductCredits w amount operation)))
      \<and> (0 \<le> sint (cached_balance w) + sint amount
           \<and> sint (cached_balance w) + sint amount < 2 ^ 31
           \<longrightarrow> 0 \<le>s cached_balance (snd (addCredits w amount))))"
proof (intro conjI impI allI)
  show "0 \<le>s cached_balance CreditWallet_new"
    by (simp add: CreditWallet_new_def word_sle_eq)
next
  show "cached_balance (snd (authenticate w token)) = cached_balance w"
    by (simp add: authenticate_def)
next
  show "transactions (snd (authenticate w token)) = transactions w"
    by (simp add: authenticate_def)
next
  show "snd (getBalance w) = w"
    by (simp add: getBalance_def)
next
  show "fst (getBalance w) = cached_balance w"
    by (simp add: getBalance_def)
next
  fix entries w'
  assume "getTransactionHistory w k = Inr (entries, w')"
  then show "w' = w"
    by (auto simp add: getTransactionHistory_def Let_def split: sum.splits)
next
  assume "0 \<le>s cached_balance w"
  then show "0 \<le>s cached_balance (snd (authenticate w token))"
    by (simp add: authenticate_def)
next
  assume "0 \<le>s cached_balance w"
  then show "0 \<le>s cached_balance (snd (getBalance w))"
    by (simp add: getBalance_def)
next
  fix entries w'
  assume "0 \<le>s cached_balance w" and "getTransactionHistory w k = Inr (entries, w')"
  then show "0 \<le>s cached_balance w'"
    by (auto simp add: getTransactionHistory_def Let_def split: sum.splits)
next
  assume nonneg: "0 \<le>s cached_balance w" and amount: "0 \<le>s amount"
  show "0 \<le>s cached_balance (snd (deductCredits w amount operation))"
  proof (cases "amount \<le>s cached_balance w")
    case True
    with amount have "sint (cached_balance w - amount) = sint (cached_balance w) - sint amount"
      by (rule sint_diff_no_wrap)
    with True show ?thesis
      by (simp add: deductCredits_def Let_def word_sle_eq)
  next
    case False
    with nonneg show ?thesis
      by (simp add: deductCredits_def)
  qed
next
  assume nonneg: "0 \<le>s cached_balance w"
    and range: "sint (cached_balance w) - sint amount < 2 ^ 31"
  show "0 \<le>s cached_balance (snd (deductCredits w amount operation))"
  proof (cases "amount \<le>s cached_balance w")
    case True
    then have low: "0 \<le> sint (cached_balance w) - sint amount"
      by (simp add: word_sle_eq)
    then have "- (2 ^ 31) \<le> sint (cached_balance w) - sint amount"
      by simp
    then have "sint (cached_balance w - amount) = sint (cached_balance w) - sint amount"
      using range by (rule sint_diff_in_range)
    with True low show ?thesis
      by (simp add: deductCredits_def Let_def word_sle_eq)
  next
    case False
    with nonneg show ?thesis
      by (simp add: deductCredits_def)
  qed
next
  assume "0 \<le>s cached_balance w"
    and range: "0 \<le> sint (cached_balance w) + sint amount
      \<and> sint (cached_balance w) + sint amount < 2 ^ 31"
  then have "- (2 ^ 31) \<le> sint (cached_balance w) + sint amount"
    by simp
  then have "sint (cached_balance w + amount) = sint (cached_balance w) + sint amount"
    using range by (intro sint_sum_no_wrap) simp_all
  with range show "0 \<le>s cached_balance (snd (addCredits w amount))"
    by (simp add: addCredits_def Let_def word_sle_eq)
qed

theorem balance_stays_nonnegative_witness:
  "0 \<le>s cached_balance (snd (deductCredits CreditWallet_new 5 ''x''))
   \<and> 0 \<le>s cached_balance (snd (addCredits CreditWallet_new 10))
   \<and> 0 \<le>s cached_balance (snd (addCredits CreditWallet_new (- 100)))
   \<and> 0 \<le>s cached_balance (snd (authenticate CreditWallet_new ''test_token''))
   \<and> cached_balance (snd (authenticate CreditWallet_new ''test_token'')) = 100
   \<and> snd (getBalance CreditWallet_new) = CreditWallet_new"
proof -
  have seed: "cached_balance CreditWallet_new = 100"
    by (simp add: CreditWallet_new_def)
  have nonneg: "0 \<le>s cached_balance CreditWallet_new"
    and five: "(0 :: int32) \<le>s 5"
    and ten: "0 \<le> sint (cached_balance CreditWallet_new) + sint (10 :: int32)
      \<and> sint (cached_balance CreditWallet_new) + sint (10 :: int32) < 2 ^ 31"
    and all: "0 \<le> sint (cached_balance CreditWallet_new) + sint (- 100 :: int32)
      \<and> sint (cached_balance CreditWallet_new) + sint (- 100 :: int32) < 2 ^ 31"
    unfolding seed by (simp_all add: word_sle_eq)
  note first = balance_stays_nonnegative [of CreditWallet_new "''test_token''" 0 5 "''x''"]
  from first nonneg five
  have "0 \<le>s cached_balance (snd (deductCredits CreditWallet_new 5 ''x''))"
    and "0 \<le>s cached_balance (snd (authenticate CreditWallet_new ''test_token''))"
    by blast+
  moreover from first
  have "cached_balance (snd (authenticate CreditWallet_new ''test_token''))
      = cached_balance CreditWallet_new"
    and "snd (getBalance CreditWallet_new) = CreditWallet_new"
    by blast+
  moreover from balance_stays_nonnegative [of CreditWallet_new "''test_token''" 0 10 "''x''"] nonneg ten
  have "0 \<le>s cached_balance (snd (addCredits CreditWallet_new 10))"
    by blast
  moreover from balance_stays_nonnegative [of CreditWallet_new "''test_token''" 0 "- 100" "''x''"] nonneg all
  have "0 \<le>s cached_balance (snd (addCredits CreditWallet_new (- 100)))"
    by blast
  ultimately show ?thesis
    unfolding seed by simp
qed

text \<open>
  The claim as it is written fails for \<^verbatim>\<open>addCredits\<close> with a negative amount: on a
  new wallet \<^verbatim>\<open>addCredits(-101)\<close> returns true and the balance is \<open>-1\<close>.
\<close>

theorem balance_nonnegative_counterexample:
  "0 \<le>s cached_balance CreditWallet_new
   \<and> fst (addCredits CreditWallet_new (- 101))
   \<and> sint (cached_balance (snd (addCredits CreditWallet_new (- 101)))) = - 1
   \<and> cached_balance (snd (addCredits CreditWallet_new (- 101))) <s 0"
  by (simp add: addCredits_def CreditWallet_new_def Let_def word_sle_eq word_sless_alt)

section \<open>Authentication\<close>

text \<open>
  C4. \<^verbatim>\<open>authenticate(token)\<close> stores the token and returns whether it is non-empty:
  for the empty token it returns false.
\<close>

theorem authenticate_empty_token:
  "authenticate w '''' = (False, w\<lparr>user_token := ''''\<rparr>)
   \<and> fst (authenticate w ''valid_token'')
   \<and> fst (authenticate w token) = (token \<noteq> [])
   \<and> user_token (snd (authenticate w token)) = token"
  by (simp add: authenticate_def)

end
